theory Spec2Isabelle
  imports Complex_Main "HOL-Library.AList"
begin

section \<open>JavaScript values used by VisualRegression.js\<close>

text \<open>
  An exception is a value. System errors of the file-system calls carry their code;
  \<open>TypeError\<close> is what calling an undefined property throws; \<open>LibraryError\<close> is an
  \<open>Error\<close> thrown by an imported library (pngjs, pixelmatch). An async method is a function
  into \<open>js_error + 'a\<close>: \<open>Inl e\<close> is a rejected promise, \<open>Inr v\<close> a fulfilled one.
\<close>

datatype errcode = ENOENT | EACCES | EISDIR | ENOTDIR

datatype js_error = SystemError errcode | TypeError string | LibraryError string

fun code_name :: "errcode \<Rightarrow> string" where
  "code_name ENOENT = ''ENOENT''"
| "code_name EACCES = ''EACCES''"
| "code_name EISDIR = ''EISDIR''"
| "code_name ENOTDIR = ''ENOTDIR''"

text \<open>\<open>error.message\<close>; for a system error the text is abbreviated to its code.\<close>

fun message :: "js_error \<Rightarrow> string" where
  "message (SystemError c) = code_name c"
| "message (TypeError m) = m"
| "message (LibraryError m) = m"

text \<open>
  A JavaScript number, as far as this file computes with one: a finite value (held exactly,
  rounding of doubles is not modelled), \<open>Infinity\<close> and \<open>NaN\<close>.
\<close>

datatype jsnum = Number real | PosInf | NaN

text \<open>\<open>a / b\<close> for non-negative finite operands.\<close>

definition js_div :: "real \<Rightarrow> real \<Rightarrow> jsnum" where
  "js_div a b = (if b = 0 then (if a = 0 then NaN else PosInf) else Number (a / b))"

text \<open>\<open>x * c\<close> for a positive finite constant \<open>c\<close>.\<close>

fun js_times :: "jsnum \<Rightarrow> real \<Rightarrow> jsnum" where
  "js_times (Number x) c = Number (x * c)"
| "js_times PosInf c = PosInf"
| "js_times NaN c = NaN"

text \<open>\<open>x < c\<close> and \<open>x > y\<close>: every comparison with \<open>NaN\<close> is false.\<close>

fun js_less :: "jsnum \<Rightarrow> real \<Rightarrow> bool" where
  "js_less (Number x) c = (x < c)"
| "js_less PosInf c = False"
| "js_less NaN c = False"

fun js_greater :: "real \<Rightarrow> jsnum \<Rightarrow> bool" where
  "js_greater x (Number y) = (x > y)"
| "js_greater x PosInf = False"
| "js_greater x NaN = False"

text \<open>Truthiness of a number: \<open>0\<close> and \<open>NaN\<close> are falsy.\<close>

fun truthy :: "jsnum \<Rightarrow> bool" where
  "truthy (Number x) = (x \<noteq> 0)"
| "truthy PosInf = True"
| "truthy NaN = False"

section \<open>Paths\<close>

text \<open>
  A path is an absolute POSIX path in normal form, held as the list of its segments.
  \<open>path.join(dir, s)\<close> appends the segments of \<open>s\<close> and normalises: empty and \<open>.\<close>
  segments vanish, \<open>..\<close> drops the last segment (and stays at the root).
\<close>

type_synonym path = "string list"

fun split_sep :: "string \<Rightarrow> string list" where
  "split_sep [] = [[]]"
| "split_sep (c # cs) =
     (if c = CHR ''/'' then [] # split_sep cs
      else (case split_sep cs of [] \<Rightarrow> [[c]] | s # ss \<Rightarrow> (c # s) # ss))"

definition push_segment :: "path \<Rightarrow> string \<Rightarrow> path" where
  "push_segment dir s =
     (if s = [] \<or> s = ''.'' then dir
      else if s = ''..'' then butlast dir
      else dir @ [s])"

definition path_join :: "path \<Rightarrow> string \<Rightarrow> path" where
  "path_join dir s = foldl push_segment dir (split_sep s)"

text \<open>\<open>path.basename(p)\<close>: the last segment, the empty string for the root.\<close>

definition basename :: "path \<Rightarrow> string" where
  "basename p = (if p = [] then [] else last p)"

definition parent :: "path \<Rightarrow> path" where
  "parent p = butlast p"

section \<open>The file system\<close>

text \<open>
  A decoded PNG image: \<open>data\<close> is the RGBA buffer, four bytes a pixel. What a file holds
  is either the encoding of such an image or bytes that pngjs cannot decode.
\<close>

record png =
  width :: nat
  height :: nat
  data :: "nat list"

datatype content = Png png | Undecodable

text \<open>
  A directory entry: a regular file with its bytes and its modification time (milliseconds
  since the epoch), a directory, or an entry on which every operation fails with
  \<open>EACCES\<close> (for instance below a directory without search permission).
\<close>

datatype node = File content int | Dir int | Locked

text \<open>
  The file system is an association list from paths to entries, in the order in which
  \<open>readdir\<close> lists them, and the clock that \<open>Date.now()\<close> reads.
\<close>

record fsstate =
  nodes :: "(path \<times> node) list"
  clock :: int

definition lookup :: "fsstate \<Rightarrow> path \<Rightarrow> node option" where
  "lookup fs p = map_of (nodes fs) p"

text \<open>The calls of Node's \<open>fs/promises\<close> module that the file makes.\<close>

definition fs_access :: "fsstate \<Rightarrow> path \<Rightarrow> js_error + unit" where
  "fs_access fs p =
     (case lookup fs p of
        None \<Rightarrow> Inl (SystemError ENOENT)
      | Some n \<Rightarrow>
          (case n of
             Locked \<Rightarrow> Inl (SystemError EACCES)
           | File c m \<Rightarrow> Inr ()
           | Dir m \<Rightarrow> Inr ()))"

text \<open>
  \<open>copyFile(src, dest)\<close> needs a readable regular file at \<open>src\<close> and an existing
  directory above \<open>dest\<close>; it overwrites a regular file at \<open>dest\<close>. The copy is written now.
\<close>

definition fs_copyFile :: "fsstate \<Rightarrow> path \<Rightarrow> path \<Rightarrow> js_error + fsstate" where
  "fs_copyFile fs src dest =
     (case lookup fs src of
        None \<Rightarrow> Inl (SystemError ENOENT)
      | Some n \<Rightarrow>
          (case n of
             Locked \<Rightarrow> Inl (SystemError EACCES)
           | Dir m \<Rightarrow> Inl (SystemError EISDIR)
           | File c m \<Rightarrow>
               (case lookup fs (parent dest) of
                  None \<Rightarrow> Inl (SystemError ENOENT)
                | Some d \<Rightarrow>
                    (case d of
                       Locked \<Rightarrow> Inl (SystemError EACCES)
                     | File c' m' \<Rightarrow> Inl (SystemError ENOTDIR)
                     | Dir m' \<Rightarrow>
                         (case lookup fs dest of
                            Some Locked \<Rightarrow> Inl (SystemError EACCES)
                          | Some (Dir m'') \<Rightarrow> Inl (SystemError EISDIR)
                          | Some (File c'' m'') \<Rightarrow>
                              Inr (fs\<lparr>nodes := AList.update dest (File c (clock fs)) (nodes fs)\<rparr>)
                          | None \<Rightarrow>
                              Inr (fs\<lparr>nodes := AList.update dest (File c (clock fs)) (nodes fs)\<rparr>))))))"

text \<open>\<open>readdir(dir)\<close>: the names of the entries whose parent is \<open>dir\<close>.\<close>

definition fs_readdir :: "fsstate \<Rightarrow> path \<Rightarrow> js_error + string list" where
  "fs_readdir fs dir =
     (case lookup fs dir of
        None \<Rightarrow> Inl (SystemError ENOENT)
      | Some n \<Rightarrow>
          (case n of
             Locked \<Rightarrow> Inl (SystemError EACCES)
           | File c m \<Rightarrow> Inl (SystemError ENOTDIR)
           | Dir m \<Rightarrow> Inr (map last (filter (\<lambda>p. p \<noteq> [] \<and> parent p = dir) (map fst (nodes fs))))))"

text \<open>\<open>stat(p)\<close>, of which only \<open>mtime.getTime()\<close> is read.\<close>

definition fs_stat :: "fsstate \<Rightarrow> path \<Rightarrow> js_error + int" where
  "fs_stat fs p =
     (case lookup fs p of
        None \<Rightarrow> Inl (SystemError ENOENT)
      | Some n \<Rightarrow>
          (case n of
             Locked \<Rightarrow> Inl (SystemError EACCES)
           | File c m \<Rightarrow> Inr m
           | Dir m \<Rightarrow> Inr m))"

text \<open>\<open>unlink(p)\<close> removes a regular file and refuses a directory.\<close>

definition fs_unlink :: "fsstate \<Rightarrow> path \<Rightarrow> js_error + fsstate" where
  "fs_unlink fs p =
     (case lookup fs p of
        None \<Rightarrow> Inl (SystemError ENOENT)
      | Some n \<Rightarrow>
          (case n of
             Locked \<Rightarrow> Inl (SystemError EACCES)
           | Dir m \<Rightarrow> Inl (SystemError EISDIR)
           | File c m \<Rightarrow> Inr (fs\<lparr>nodes := AList.delete p (nodes fs)\<rparr>)))"

section \<open>The module bound to \<open>fs\<close>\<close>

text \<open>
  Line 3 of VisualRegression.js is \<^verbatim>\<open>import fs from 'fs/promises'\<close>. That module provides
  \<open>access\<close>, \<open>copyFile\<close>, \<open>readdir\<close>, \<open>stat\<close>, \<open>unlink\<close>, \<open>mkdir\<close> and \<open>writeFile\<close>, modelled
  above. The stream constructors \<open>createReadStream\<close> and \<open>createWriteStream\<close>, which
  \<open>loadPNG\<close> (line 135) and \<open>savePNG\<close> (line 149) call on the same object, are members of
  the callback module \<open>fs\<close> and not of \<open>fs/promises\<close>: there the property read yields
  \<open>undefined\<close>, and calling it throws a \<open>TypeError\<close>.

  The two properties are therefore parameters of the model. \<open>Function f\<close> stands for a
  constructor whose stream, piped into the PNG parser (or fed by the PNG packer), settles
  the promise of \<open>loadPNG\<close> (of \<open>savePNG\<close>) as \<open>f\<close> says; \<open>fs_promises\<close> is the module
  that the import binds.
\<close>

datatype 'a property = Undefined | Function 'a

record fs_module =
  createReadStream :: "(fsstate \<Rightarrow> path \<Rightarrow> js_error + png) property"
  createWriteStream :: "(fsstate \<Rightarrow> png \<Rightarrow> path \<Rightarrow> js_error + fsstate) property"

definition fs_promises :: fs_module where
  "fs_promises = \<lparr>createReadStream = Undefined, createWriteStream = Undefined\<rparr>"

section \<open>VisualRegressionTester\<close>

record tester =
  reportsDir :: path
  baselineDir :: path
  diffDir :: path

text \<open>The constructor (lines 13 to 17).\<close>

definition VisualRegressionTester :: "path \<Rightarrow> tester" where
  "VisualRegressionTester rd =
     \<lparr>reportsDir = rd,
      baselineDir = path_join (path_join (path_join rd ''..'') ''..'') ''baselines'',
      diffDir = path_join rd ''diffs''\<rparr>"

text \<open>\<open>fileExists\<close> (lines 158 to 165): the \<open>catch\<close> has no binding and takes every exception.\<close>

definition fileExists :: "fsstate \<Rightarrow> path \<Rightarrow> js_error + bool" where
  "fileExists fs filePath =
     (case fs_access fs filePath of
        Inr u \<Rightarrow> Inr True
      | Inl e \<Rightarrow> Inr False)"

text \<open>
  \<open>loadPNG\<close> (lines 132 to 145). The executor creates the parser and then calls
  \<open>fs.createReadStream(imagePath)\<close>; an exception thrown in the executor rejects the promise.
\<close>

definition loadPNG :: "fs_module \<Rightarrow> fsstate \<Rightarrow> path \<Rightarrow> js_error + png" where
  "loadPNG F fs imagePath =
     (case createReadStream F of
        Undefined \<Rightarrow> Inl (TypeError ''fs.createReadStream is not a function'')
      | Function rd \<Rightarrow> rd fs imagePath)"

text \<open>\<open>savePNG\<close> (lines 147 to 156), likewise with \<open>fs.createWriteStream(outputPath)\<close>.\<close>

definition savePNG :: "fs_module \<Rightarrow> fsstate \<Rightarrow> png \<Rightarrow> path \<Rightarrow> js_error + fsstate" where
  "savePNG F fs img outputPath =
     (case createWriteStream F of
        Undefined \<Rightarrow> Inl (TypeError ''fs.createWriteStream is not a function'')
      | Function wr \<Rightarrow> wr fs img outputPath)"

text \<open>
  \<open>pixelmatch(img1, img2, output, width, height, options)\<close> is an imported library
  function and a parameter of the model: from the two buffers and the dimensions it throws
  or returns the number of differing pixels, together with the painted output buffer.
\<close>

type_synonym pixelmatch = "nat list \<Rightarrow> nat list \<Rightarrow> nat \<Rightarrow> nat \<Rightarrow> js_error + (nat \<times> nat list)"

text \<open>The object that \<open>compareImages\<close> returns.\<close>

record comparison =
  cmp_passed :: bool
  cmp_diffPixels :: nat
  cmp_diffPercentage :: jsnum
  cmp_diffPath :: "path option"

text \<open>\<open>compareImages\<close> (lines 95 to 130).\<close>

definition compareImages ::
  "fs_module \<Rightarrow> pixelmatch \<Rightarrow> fsstate \<Rightarrow> path \<Rightarrow> path \<Rightarrow> path \<Rightarrow> js_error + (comparison \<times> fsstate)" where
  "compareImages F pm fs currentPath baselinePath diffPath =
     (case loadPNG F fs currentPath of
        Inl e \<Rightarrow> Inl e
      | Inr currentImage \<Rightarrow>
     (case loadPNG F fs baselinePath of
        Inl e \<Rightarrow> Inl e
      | Inr baselineImage \<Rightarrow>
     (let w = width currentImage; h = height currentImage in
      case pm (data currentImage) (data baselineImage) w h of
        Inl e \<Rightarrow> Inl e
      | Inr (diffPixels, diffData) \<Rightarrow>
     (let diffPercentage = js_times (js_div (real diffPixels) (real (w * h))) 100;
          passed = js_less diffPercentage 5
      in if \<not> passed then
           (case savePNG F fs \<lparr>width = w, height = h, data = diffData\<rparr> diffPath of
              Inl e \<Rightarrow> Inl e
            | Inr fs' \<Rightarrow>
                Inr (\<lparr>cmp_passed = passed, cmp_diffPixels = diffPixels,
                      cmp_diffPercentage = diffPercentage, cmp_diffPath = Some diffPath\<rparr>, fs'))
         else
           Inr (\<lparr>cmp_passed = passed, cmp_diffPixels = diffPixels,
                 cmp_diffPercentage = diffPercentage, cmp_diffPath = None\<rparr>, fs)))))"

text \<open>One entry of \<open>results.comparisons\<close>, and the object that \<open>compareScreenshots\<close> returns.\<close>

record outcome =
  filename :: string
  status :: string
  baseline :: path
  current :: path
  diff :: "path option"
  diffPercentage :: jsnum
  error :: "string option"

record results =
  total :: nat
  passed :: nat
  failed :: nat
  new :: nat
  comparisons :: "outcome list"

definition initial_results :: results where
  "initial_results = \<lparr>total = 0, passed = 0, failed = 0, new = 0, comparisons = []\<rparr>"

definition baselinePath_of :: "tester \<Rightarrow> path \<Rightarrow> path" where
  "baselinePath_of t screenshot = path_join (baselineDir t) (basename screenshot)"

definition diffPath_of :: "tester \<Rightarrow> string \<Rightarrow> path \<Rightarrow> path" where
  "diffPath_of t runId screenshot = path_join (diffDir t) (runId @ ''-'' @ basename screenshot)"

text \<open>The three object literals pushed onto \<open>results.comparisons\<close> (lines 47, 59 and 79).\<close>

definition new_outcome :: "tester \<Rightarrow> path \<Rightarrow> outcome" where
  "new_outcome t screenshot =
     \<lparr>filename = basename screenshot, status = ''new'',
      baseline = baselinePath_of t screenshot, current = screenshot,
      diff = None, diffPercentage = Number 0, error = None\<rparr>"

definition compared_outcome :: "tester \<Rightarrow> string \<Rightarrow> path \<Rightarrow> comparison \<Rightarrow> outcome" where
  "compared_outcome t runId screenshot cmp =
     \<lparr>filename = basename screenshot,
      status = (if cmp_passed cmp then ''passed'' else ''failed''),
      baseline = baselinePath_of t screenshot, current = screenshot,
      diff = (if cmp_passed cmp then None else Some (diffPath_of t runId screenshot)),
      diffPercentage = cmp_diffPercentage cmp, error = None\<rparr>"

definition error_outcome :: "tester \<Rightarrow> path \<Rightarrow> js_error \<Rightarrow> outcome" where
  "error_outcome t screenshot e =
     \<lparr>filename = basename screenshot, status = ''error'',
      baseline = baselinePath_of t screenshot, current = screenshot,
      diff = None, diffPercentage = Number 100, error = Some (message e)\<rparr>"

text \<open>
  The \<open>try\<close> block of the loop (lines 43 to 75). Every call that can throw comes before
  the block touches \<open>results\<close>, so an exception leaves \<open>results\<close> as it was.
\<close>

definition loop_try ::
  "fs_module \<Rightarrow> pixelmatch \<Rightarrow> tester \<Rightarrow> string \<Rightarrow> results \<Rightarrow> fsstate \<Rightarrow> path
     \<Rightarrow> js_error + (results \<times> fsstate)" where
  "loop_try F pm t runId res fs screenshot =
     (let baselinePath = baselinePath_of t screenshot;
          diffPath = diffPath_of t runId screenshot
      in case fileExists fs baselinePath of
           Inl e \<Rightarrow> Inl e
         | Inr ex \<Rightarrow>
             if \<not> ex then
               (case fs_copyFile fs screenshot baselinePath of
                  Inl e \<Rightarrow> Inl e
                | Inr fs' \<Rightarrow>
                    Inr (res\<lparr>new := new res + 1,
                             comparisons := comparisons res @ [new_outcome t screenshot]\<rparr>, fs'))
             else
               (case compareImages F pm fs screenshot baselinePath diffPath of
                  Inl e \<Rightarrow> Inl e
                | Inr (cmp, fs') \<Rightarrow>
                    (let res1 = res\<lparr>comparisons := comparisons res @
                                     [compared_outcome t runId screenshot cmp]\<rparr>
                     in if cmp_passed cmp then Inr (res1\<lparr>passed := passed res1 + 1\<rparr>, fs')
                        else Inr (res1\<lparr>failed := failed res1 + 1\<rparr>, fs'))))"

text \<open>The loop body (lines 36 to 88): the counter, the \<open>try\<close> block and its \<open>catch\<close>.\<close>

definition loop_body ::
  "fs_module \<Rightarrow> pixelmatch \<Rightarrow> tester \<Rightarrow> string \<Rightarrow> results \<times> fsstate \<Rightarrow> path \<Rightarrow> results \<times> fsstate" where
  "loop_body F pm t runId acc screenshot =
     (let res = (fst acc)\<lparr>total := total (fst acc) + 1\<rparr>; fs = snd acc
      in case loop_try F pm t runId res fs screenshot of
           Inr rf \<Rightarrow> rf
         | Inl e \<Rightarrow>
             (res\<lparr>failed := failed res + 1,
                  comparisons := comparisons res @ [error_outcome t screenshot e]\<rparr>, fs))"

text \<open>
  The \<open>for\<close> loop of \<open>compareScreenshots\<close> (lines 35 to 89), from an accumulated
  \<open>results\<close> and file system.
\<close>

definition screenshots_loop ::
  "fs_module \<Rightarrow> pixelmatch \<Rightarrow> tester \<Rightarrow> string \<Rightarrow> results \<times> fsstate \<Rightarrow> path list
     \<Rightarrow> results \<times> fsstate" where
  "screenshots_loop F pm t runId acc currentScreenshots =
     foldl (loop_body F pm t runId) acc currentScreenshots"

text \<open>
  \<open>compareScreenshots\<close> (lines 24 to 93). Nothing outside the \<open>try\<close> block throws for a
  list of paths, so the promise is fulfilled with \<open>results\<close>.
\<close>

definition compareScreenshots ::
  "fs_module \<Rightarrow> pixelmatch \<Rightarrow> tester \<Rightarrow> fsstate \<Rightarrow> path list \<Rightarrow> string
     \<Rightarrow> js_error + (results \<times> fsstate)" where
  "compareScreenshots F pm t fs currentScreenshots runId =
     Inr (screenshots_loop F pm t runId (initial_results, fs) currentScreenshots)"

section \<open>The report table\<close>

text \<open>
  \<open>Number.prototype.toFixed(2)\<close>: the sign, then the integer nearest to a hundred times the
  magnitude (the larger one on a tie), written with two decimals.
\<close>

definition digit_char :: "nat \<Rightarrow> char" where
  "digit_char d = ''0123456789'' ! (d mod 10)"

fun show_nat :: "nat \<Rightarrow> string" where
  "show_nat n = (if n < 10 then [digit_char n] else show_nat (n div 10) @ [digit_char (n mod 10)])"

declare show_nat.simps [simp del]

definition toFixed2_real :: "real \<Rightarrow> string" where
  "toFixed2_real x =
     (let n = nat \<lfloor>\<bar>x\<bar> * 100 + 1 / 2\<rfloor>
      in (if x < 0 then ''-'' else []) @ show_nat (n div 100) @ ''.'' @
         [digit_char (n mod 100 div 10), digit_char (n mod 10)])"

fun toFixed2 :: "jsnum \<Rightarrow> string" where
  "toFixed2 (Number x) = toFixed2_real x"
| "toFixed2 PosInf = ''Infinity''"
| "toFixed2 NaN = ''NaN''"

text \<open>The status glyph (lines 189 to 191), as the UTF-8 bytes of the emoji.\<close>

definition status_glyph :: "string \<Rightarrow> string" where
  "status_glyph st =
     (if st = ''passed'' then [CHR 0xE2, CHR 0x9C, CHR 0x85]
      else if st = ''failed'' then [CHR 0xE2, CHR 0x9D, CHR 0x8C]
      else if st = ''new'' then [CHR 0xF0, CHR 0x9F, CHR 0x93, CHR 0xB8]
      else [CHR 0xE2, CHR 0x9A, CHR 0xA0, CHR 0xEF, CHR 0xB8, CHR 0x8F])"

text \<open>The cells of one row (lines 193 to 196). A path is a non-empty string, hence truthy.\<close>

definition diffPercent :: "outcome \<Rightarrow> string" where
  "diffPercent c =
     (if truthy (diffPercentage c) then toFixed2 (diffPercentage c) @ ''%'' else ''N/A'')"

definition baselineLink :: "outcome \<Rightarrow> string" where
  "baselineLink c = ''[Baseline]('' @ basename (baseline c) @ '')''"

definition currentLink :: "outcome \<Rightarrow> string" where
  "currentLink c = ''[Current]('' @ basename (current c) @ '')''"

definition diffLink :: "outcome \<Rightarrow> string" where
  "diffLink c = (case diff c of Some p \<Rightarrow> ''[Diff]('' @ basename p @ '')'' | None \<Rightarrow> ''N/A'')"

text \<open>The row appended to the report on line 198, and the rows of the table.\<close>

definition report_row :: "outcome \<Rightarrow> string" where
  "report_row c =
     ''| '' @ filename c @ '' | '' @ status_glyph (status c) @ '' | '' @ diffPercent c @
     '' | '' @ baselineLink c @ '' | '' @ currentLink c @ '' | '' @ diffLink c @ '' |'' @ [CHR 0x0A]"

definition report_rows :: "results \<Rightarrow> string" where
  "report_rows res = concat (map report_row (comparisons res))"

section \<open>Retention\<close>

text \<open>
  The loop of \<open>cleanupOldDiffs\<close> (lines 244 to 252). The result pairs the exception that left
  the loop, if any, with the file system at that moment.
\<close>

fun cleanup_loop :: "tester \<Rightarrow> int \<Rightarrow> jsnum \<Rightarrow> string list \<Rightarrow> fsstate \<Rightarrow> js_error option \<times> fsstate" where
  "cleanup_loop t now maxAge [] fs = (None, fs)"
| "cleanup_loop t now maxAge (file # files) fs =
     (let filePath = path_join (diffDir t) file
      in case fs_stat fs filePath of
           Inl e \<Rightarrow> (Some e, fs)
         | Inr mtime \<Rightarrow>
             if js_greater (real_of_int (now - mtime)) maxAge then
               (case fs_unlink fs filePath of
                  Inl e \<Rightarrow> (Some e, fs)
                | Inr fs' \<Rightarrow> cleanup_loop t now maxAge files fs')
             else cleanup_loop t now maxAge files fs)"

text \<open>
  \<open>cleanupOldDiffs\<close> (lines 239 to 256): the \<open>catch\<close> logs the exception and the method
  returns.
\<close>

definition cleanupOldDiffs :: "tester \<Rightarrow> fsstate \<Rightarrow> jsnum \<Rightarrow> js_error + fsstate" where
  "cleanupOldDiffs t fs maxAge =
     (case fs_readdir fs (diffDir t) of
        Inl e \<Rightarrow> Inr fs
      | Inr files \<Rightarrow>
          (case cleanup_loop t (clock fs) maxAge files fs of
             (None, fs') \<Rightarrow> Inr fs'
           | (Some e, fs') \<Rightarrow> Inr fs'))"

definition default_maxAge :: jsnum where
  "default_maxAge = Number (7 * 24 * 60 * 60 * 1000)"

section \<open>Auxiliary definitions\<close>

text \<open>The number of outcomes whose status satisfies a predicate.\<close>

definition count_status :: "(string \<Rightarrow> bool) \<Rightarrow> outcome list \<Rightarrow> nat" where
  "count_status P cs = length (filter (\<lambda>c. P (status c)) cs)"

text \<open>The file system when the loop reaches capture number \<open>i\<close> (counted from 0).\<close>

definition state_before ::
  "fs_module \<Rightarrow> pixelmatch \<Rightarrow> tester \<Rightarrow> fsstate \<Rightarrow> path list \<Rightarrow> string \<Rightarrow> nat \<Rightarrow> fsstate" where
  "state_before F pm t fs shots runId i =
     snd (screenshots_loop F pm t runId (initial_results, fs) (take i shots))"



text \<open>
  The test of line 248 on an entry: a regular file whose age, \<open>now - mtime\<close>, is greater
  than \<open>maxAge\<close>.
\<close>

definition is_old :: "int \<Rightarrow> jsnum \<Rightarrow> node option \<Rightarrow> bool" where
  "is_old now maxAge n =
     (case n of
        Some (File c m) \<Rightarrow> js_greater (real_of_int (now - m)) maxAge
      | Some (Dir m) \<Rightarrow> False
      | Some Locked \<Rightarrow> False
      | None \<Rightarrow> False)"



section \<open>Example data\<close>

text \<open>
  A tester for the reports directory \<open>/w/reports/run1\<close>, two captures, and a file system in
  which \<open>home.png\<close> has a baseline of other dimensions and \<open>login.png\<close> has none.
\<close>

definition example_tester :: tester where
  "example_tester = VisualRegressionTester [''w'', ''reports'', ''run1'']"

definition home_capture :: path where
  "home_capture = [''w'', ''reports'', ''run1'', ''home.png'']"

definition login_capture :: path where
  "login_capture = [''w'', ''reports'', ''run1'', ''login.png'']"

definition wide_image :: png where
  "wide_image = \<lparr>width = 2, height = 1, data = [0, 0, 0, 255, 0, 0, 0, 255]\<rparr>"

definition tall_image :: png where
  "tall_image = \<lparr>width = 1, height = 2, data = [0, 0, 0, 255, 0, 0, 0, 255]\<rparr>"

definition example_fs :: fsstate where
  "example_fs =
     \<lparr>nodes =
        [([''w'', ''baselines''], Dir 1000),
         ([''w'', ''reports'', ''run1''], Dir 1000),
         ([''w'', ''reports'', ''run1'', ''diffs''], Dir 1000),
         ([''w'', ''baselines'', ''home.png''], File (Png tall_image) 2000),
         (home_capture, File (Png wide_image) 5000),
         (login_capture, File (Png wide_image) 5000)],
      clock = 6000\<rparr>"

text \<open>The same, with a baseline for \<open>home.png\<close> that is identical to the capture.\<close>

definition identical_fs :: fsstate where
  "identical_fs =
     \<lparr>nodes =
        [([''w'', ''baselines''], Dir 1000),
         ([''w'', ''reports'', ''run1''], Dir 1000),
         ([''w'', ''reports'', ''run1'', ''diffs''], Dir 1000),
         ([''w'', ''baselines'', ''home.png''], File (Png wide_image) 2000),
         (home_capture, File (Png wide_image) 5000)],
      clock = 6000\<rparr>"

text \<open>A baseline store in which \<open>home.png\<close> cannot be reached.\<close>

definition locked_fs :: fsstate where
  "locked_fs =
     \<lparr>nodes =
        [([''w'', ''baselines''], Dir 1000),
         ([''w'', ''baselines'', ''home.png''], Locked)],
      clock = 6000\<rparr>"

text \<open>
  A stand-in for pixelmatch: it refuses buffers of different lengths, as the library does,
  and counts the pixels in which the buffers differ.
\<close>

definition count_pixels :: pixelmatch where
  "count_pixels img1 img2 w h =
     (if length img1 \<noteq> length img2 then Inl (LibraryError ''Image sizes do not match.'')
      else Inr (length (filter (\<lambda>(a, b). a \<noteq> b) (zip img1 img2)) div 4, img1))"



definition blocked_fs :: fsstate where
  "blocked_fs =
     \<lparr>nodes =
        [([''w'', ''reports'', ''run1'', ''diffs''], Dir 1000),
         ([''w'', ''reports'', ''run1'', ''diffs'', ''archive''], Dir 1000),
         ([''w'', ''reports'', ''run1'', ''diffs'', ''p0-home.png''], File (Png wide_image) 1000)],
      clock = 700000000\<rparr>"

text \<open>
  A module with the two stream constructors, as the callback module \<open>fs\<close> has them: the
  read stream delivers the bytes of a regular file to the PNG parser, the write stream
  stores the packed image. It serves to run the part of \<open>compareImages\<close> that is out of
  reach with \<open>fs_promises\<close>, on a capture that differs from its baseline in one pixel of two.
\<close>

definition streaming_module :: fs_module where
  "streaming_module =
     \<lparr>createReadStream = Function (\<lambda>fs p.
        case lookup fs p of
          Some (File (Png img) m) \<Rightarrow> Inr img
        | Some (File Undecodable m) \<Rightarrow> Inl (LibraryError ''Invalid file signature'')
        | Some (Dir m) \<Rightarrow> Inl (SystemError EISDIR)
        | Some Locked \<Rightarrow> Inl (SystemError EACCES)
        | None \<Rightarrow> Inl (SystemError ENOENT)),
      createWriteStream = Function (\<lambda>fs img p.
        Inr (fs\<lparr>nodes := AList.update p (File (Png img) (clock fs)) (nodes fs)\<rparr>))\<rparr>"

definition changed_image :: png where
  "changed_image = \<lparr>width = 2, height = 1, data = [255, 255, 255, 0, 0, 0, 0, 255]\<rparr>"

definition changed_fs :: fsstate where
  "changed_fs =
     \<lparr>nodes =
        [([''w'', ''baselines''], Dir 1000),
         ([''w'', ''reports'', ''run1''], Dir 1000),
         ([''w'', ''reports'', ''run1'', ''diffs''], Dir 1000),
         ([''w'', ''baselines'', ''home.png''], File (Png wide_image) 2000),
         (home_capture, File (Png changed_image) 5000)],
      clock = 6000\<rparr>"

section \<open>Facts about the file system\<close>

lemma fileExists_eq: "fileExists fs p = Inr (lookup fs p \<noteq> None \<and> lookup fs p \<noteq> Some Locked)"
  by (simp add: fileExists_def fs_access_def split: option.splits node.splits)

lemma lookup_update:
  "lookup (fs\<lparr>nodes := AList.update k v (nodes fs)\<rparr>) p = (if p = k then Some v else lookup fs p)"
  by (simp add: lookup_def update_conv')


lemma fs_copyFile_Inr:
  assumes "fs_copyFile fs src dest = Inr fs'"
  shows "\<exists>c m. lookup fs src = Some (File c m) \<and> lookup fs dest \<noteq> Some Locked \<and>
           fs' = fs\<lparr>nodes := AList.update dest (File c (clock fs)) (nodes fs)\<rparr>"
  using assms by (auto simp: fs_copyFile_def split: option.splits node.splits)

lemma fs_copyFile_new:
  assumes "lookup fs src = Some (File c m)" "lookup fs (parent dest) = Some (Dir d)"
    "lookup fs dest = None"
  shows "fs_copyFile fs src dest =
           Inr (fs\<lparr>nodes := AList.update dest (File c (clock fs)) (nodes fs)\<rparr>)"
  using assms by (simp add: fs_copyFile_def)

section \<open>The loop of \<open>compareScreenshots\<close>\<close>

lemma screenshots_loop_Nil: "screenshots_loop F pm t runId acc [] = acc"
  by (simp add: screenshots_loop_def)

lemma screenshots_loop_Cons:
  "screenshots_loop F pm t runId acc (s # ss) =
     screenshots_loop F pm t runId (loop_body F pm t runId acc s) ss"
  by (simp add: screenshots_loop_def)

lemma screenshots_loop_append:
  "screenshots_loop F pm t runId acc (xs @ ys) =
     screenshots_loop F pm t runId (screenshots_loop F pm t runId acc xs) ys"
  by (simp add: screenshots_loop_def)

text \<open>One pass of the body pushes one outcome and moves the counter that its status names.\<close>

lemma loop_body_counts:
  assumes "loop_body F pm t runId (res, fs) s = (res', fs')"
  shows "\<exists>c. comparisons res' = comparisons res @ [c] \<and> total res' = total res + 1 \<and>
           passed res' = passed res + (if status c = ''passed'' then 1 else 0) \<and>
           failed res' = failed res + (if status c = ''failed'' \<or> status c = ''error'' then 1 else 0) \<and>
           new res' = new res + (if status c = ''new'' then 1 else 0)"
  using assms
  by (auto simp: loop_body_def loop_try_def Let_def fileExists_def new_outcome_def
      compared_outcome_def error_outcome_def split: sum.splits if_splits prod.splits)

lemma loop_body_sum:
  assumes "loop_body F pm t runId (res, fs) s = (res', fs')"
  shows "passed res' + failed res' + new res' = passed res + failed res + new res + 1"
  using assms
  by (auto simp: loop_body_def loop_try_def Let_def fileExists_def
      split: sum.splits if_splits prod.splits)

lemma screenshots_loop_counts:
  "screenshots_loop F pm t runId (res, fs) shots = (res', fs') \<Longrightarrow>
   \<exists>cs. comparisons res' = comparisons res @ cs \<and> length cs = length shots \<and>
        total res' = total res + length shots \<and>
        passed res' = passed res + count_status (\<lambda>st. st = ''passed'') cs \<and>
        failed res' = failed res + count_status (\<lambda>st. st = ''failed'' \<or> st = ''error'') cs \<and>
        new res' = new res + count_status (\<lambda>st. st = ''new'') cs"
proof (induction shots arbitrary: res fs)
  case Nil
  then show ?case by (simp add: screenshots_loop_Nil count_status_def)
next
  case (Cons s ss)
  obtain res1 fs1 where step: "loop_body F pm t runId (res, fs) s = (res1, fs1)"
    by (cases "loop_body F pm t runId (res, fs) s")
  from loop_body_counts [OF step] obtain c where c:
    "comparisons res1 = comparisons res @ [c]" "total res1 = total res + 1"
    "passed res1 = passed res + (if status c = ''passed'' then 1 else 0)"
    "failed res1 = failed res + (if status c = ''failed'' \<or> status c = ''error'' then 1 else 0)"
    "new res1 = new res + (if status c = ''new'' then 1 else 0)"
    by blast
  from Cons.prems step have "screenshots_loop F pm t runId (res1, fs1) ss = (res', fs')"
    by (simp add: screenshots_loop_Cons)
  from Cons.IH [OF this] obtain cs where cs:
    "comparisons res' = comparisons res1 @ cs" "length cs = length ss"
    "total res' = total res1 + length ss"
    "passed res' = passed res1 + count_status (\<lambda>st. st = ''passed'') cs"
    "failed res' = failed res1 + count_status (\<lambda>st. st = ''failed'' \<or> st = ''error'') cs"
    "new res' = new res1 + count_status (\<lambda>st. st = ''new'') cs"
    by blast
  show ?case
    using c cs by (intro exI [of _ "c # cs"]) (simp add: count_status_def)
qed

lemma screenshots_loop_sum:
  "screenshots_loop F pm t runId (res, fs) shots = (res', fs') \<Longrightarrow>
   passed res' + failed res' + new res' = passed res + failed res + new res + length shots"
proof (induction shots arbitrary: res fs)
  case Nil
  then show ?case by (simp add: screenshots_loop_Nil)
next
  case (Cons s ss)
  obtain res1 fs1 where step: "loop_body F pm t runId (res, fs) s = (res1, fs1)"
    by (cases "loop_body F pm t runId (res, fs) s")
  with Cons.prems have "screenshots_loop F pm t runId (res1, fs1) ss = (res', fs')"
    by (simp add: screenshots_loop_Cons)
  from Cons.IH [OF this] loop_body_sum [OF step] show ?case by simp
qed

lemma compareImages_fs_promises:
  "compareImages fs_promises pm fs cur base dp =
     Inl (TypeError ''fs.createReadStream is not a function'')"
  by (simp add: compareImages_def loadPNG_def fs_promises_def)

text \<open>A comparison that passes writes nothing.\<close>

lemma compareImages_passed:
  assumes "compareImages F pm fs cur base dp = Inr (cmp, fs')" and "cmp_passed cmp"
  shows "fs' = fs"
  using assms
  by (auto simp: compareImages_def Let_def split: sum.splits prod.splits if_splits)

text \<open>A comparison that does not pass has saved the diff image at the diff path.\<close>

lemma compareImages_failed:
  assumes "compareImages F pm fs cur base dp = Inr (cmp, fs')" and "\<not> cmp_passed cmp"
  shows "\<exists>img. savePNG F fs img dp = Inr fs'"
  using assms
  by (auto simp: compareImages_def Let_def split: sum.splits prod.splits if_splits)

text \<open>
  What lines 116 and 117 compute once both images are decoded and pixelmatch has returned:
  the percentage of differing pixels, and the comparison with the threshold 5.
\<close>

lemma compareImages_diffPercentage:
  assumes "loadPNG F fs cur = Inr ci" and "loadPNG F fs base = Inr bi"
    and "pm (data ci) (data bi) (width ci) (height ci) = Inr (d, buf)"
    and "width ci * height ci \<noteq> 0"
    and "compareImages F pm fs cur base dp = Inr (cmp, fs')"
  shows "cmp_diffPixels cmp = d \<and>
         cmp_diffPercentage cmp = Number (real d / real (width ci * height ci) * 100) \<and>
         cmp_passed cmp = (real d / real (width ci * height ci) * 100 < 5)"
  using assms
  by (auto simp: compareImages_def Let_def js_div_def split: sum.splits prod.splits if_splits)

text \<open>The three ways in which a pass over one capture ends.\<close>

lemma loop_body_cases:
  assumes "loop_body F pm t runId (res, fs) s = (res', fs')"
  shows "(\<exists>c m. last (comparisons res') = new_outcome t s \<and> lookup fs s = Some (File c m) \<and>
            fs' = fs\<lparr>nodes := AList.update (baselinePath_of t s) (File c (clock fs)) (nodes fs)\<rparr>) \<or>
         (\<exists>e. last (comparisons res') = error_outcome t s e \<and> fs' = fs) \<or>
         (\<exists>cmp. last (comparisons res') = compared_outcome t runId s cmp \<and>
            compareImages F pm fs s (baselinePath_of t s) (diffPath_of t runId s) = Inr (cmp, fs'))"
proof (cases "loop_try F pm t runId (res\<lparr>total := total res + 1\<rparr>) fs s")
  case (Inl e)
  with assms show ?thesis by (auto simp: loop_body_def Let_def)
next
  case (Inr rf)
  with assms have rf: "rf = (res', fs')" by (simp add: loop_body_def Let_def)
  show ?thesis
  proof (cases "fileExists fs (baselinePath_of t s) = Inr True")
    case True
    with Inr rf show ?thesis
      by (auto simp: loop_try_def Let_def split: sum.splits prod.splits if_splits)
  next
    case False
    then have no: "fileExists fs (baselinePath_of t s) = Inr False"
      by (simp add: fileExists_eq)
    with Inr rf obtain fs1 where cp: "fs_copyFile fs s (baselinePath_of t s) = Inr fs1"
      and res': "res' = res\<lparr>total := total res + 1, new := new res + 1,
            comparisons := comparisons res @ [new_outcome t s]\<rparr>" and "fs' = fs1"
      by (auto simp: loop_try_def Let_def split: sum.splits)
    with fs_copyFile_Inr [OF cp] show ?thesis by auto
  qed
qed

lemma loop_body_error:
  assumes "fileExists fs (baselinePath_of t s) = Inr True"
    and "compareImages F pm fs s (baselinePath_of t s) (diffPath_of t runId s) = Inl e"
  shows "loop_body F pm t runId (res, fs) s =
     (res\<lparr>total := total res + 1, failed := failed res + 1,
          comparisons := comparisons res @ [error_outcome t s e]\<rparr>, fs)"
  using assms by (simp add: loop_body_def loop_try_def Let_def)

lemma loop_body_adopts:
  assumes "lookup fs (baselinePath_of t s) = None"
    and "lookup fs s = Some (File c m)"
    and "lookup fs (parent (baselinePath_of t s)) = Some (Dir d)"
  shows "loop_body F pm t runId (res, fs) s =
     (res\<lparr>total := total res + 1, new := new res + 1,
          comparisons := comparisons res @ [new_outcome t s]\<rparr>,
      fs\<lparr>nodes := AList.update (baselinePath_of t s) (File c (clock fs)) (nodes fs)\<rparr>)"
  using assms fs_copyFile_new [OF assms(2) assms(3) assms(1)]
  by (simp add: loop_body_def loop_try_def Let_def fileExists_eq)

text \<open>With the module that the import binds, a pass is an adoption or an error.\<close>

lemma loop_body_fs_promises:
  "loop_body fs_promises pm t runId (res, fs) s =
     (let res1 = res\<lparr>total := total res + 1\<rparr>; bp = baselinePath_of t s in
      if lookup fs bp \<noteq> None \<and> lookup fs bp \<noteq> Some Locked then
        (res1\<lparr>failed := failed res1 + 1, comparisons := comparisons res1 @
            [error_outcome t s (TypeError ''fs.createReadStream is not a function'')]\<rparr>, fs)
      else case fs_copyFile fs s bp of
         Inl e \<Rightarrow> (res1\<lparr>failed := failed res1 + 1,
                        comparisons := comparisons res1 @ [error_outcome t s e]\<rparr>, fs)
       | Inr fs' \<Rightarrow> (res1\<lparr>new := new res1 + 1,
                          comparisons := comparisons res1 @ [new_outcome t s]\<rparr>, fs'))"
  by (auto simp: loop_body_def loop_try_def Let_def fileExists_eq compareImages_fs_promises
      split: sum.splits)

text \<open>Such a pass leaves the file system alone or adopts the capture at a free baseline path.\<close>

lemma loop_body_frame:
  assumes "loop_body fs_promises pm t runId (res, fs) s = (res', fs')"
  shows "fs' = fs \<or>
         (lookup fs (baselinePath_of t s) = None \<and>
          (\<exists>c m. lookup fs s = Some (File c m) \<and>
             fs' = fs\<lparr>nodes := AList.update (baselinePath_of t s) (File c (clock fs)) (nodes fs)\<rparr>))"
proof (cases "lookup fs (baselinePath_of t s) \<noteq> None \<and> lookup fs (baselinePath_of t s) \<noteq> Some Locked")
  case True
  with assms show ?thesis by (simp add: loop_body_fs_promises Let_def)
next
  case False
  show ?thesis
  proof (cases "fs_copyFile fs s (baselinePath_of t s)")
    case (Inl e)
    with False assms show ?thesis by (auto simp: loop_body_fs_promises Let_def)
  next
    case (Inr fs1)
    from fs_copyFile_Inr [OF Inr] obtain c m where c:
      "lookup fs s = Some (File c m)" "lookup fs (baselinePath_of t s) \<noteq> Some Locked"
      "fs1 = fs\<lparr>nodes := AList.update (baselinePath_of t s) (File c (clock fs)) (nodes fs)\<rparr>"
      by blast
    from False c(2) have "lookup fs (baselinePath_of t s) = None" by blast
    moreover from False Inr assms have "fs' = fs1" by (auto simp: loop_body_fs_promises Let_def)
    ultimately show ?thesis using c by blast
  qed
qed

lemma screenshots_loop_frame:
  "screenshots_loop fs_promises pm t runId (res, fs) shots = (res', fs') \<Longrightarrow>
   clock fs' = clock fs \<and>
   (\<forall>p. lookup fs' p = lookup fs p \<or>
        (p \<in> baselinePath_of t ` set shots \<and> lookup fs p = None \<and>
         (\<exists>c. lookup fs' p = Some (File c (clock fs)))))"
proof (induction shots arbitrary: res fs)
  case Nil
  then show ?case by (simp add: screenshots_loop_Nil)
next
  case (Cons s ss)
  obtain res1 fs1 where step: "loop_body fs_promises pm t runId (res, fs) s = (res1, fs1)"
    by (cases "loop_body fs_promises pm t runId (res, fs) s")
  with Cons.prems have rest: "screenshots_loop fs_promises pm t runId (res1, fs1) ss = (res', fs')"
    by (simp add: screenshots_loop_Cons)
  note IH = Cons.IH [OF rest]
  from loop_body_frame [OF step] have first:
    "clock fs1 = clock fs \<and> (\<forall>p. lookup fs1 p = lookup fs p \<or>
        (p = baselinePath_of t s \<and> lookup fs p = None \<and>
         (\<exists>c. lookup fs1 p = Some (File c (clock fs)))))"
    by (auto simp: lookup_update split: if_splits)
  show ?case
  proof (intro conjI allI)
    show "clock fs' = clock fs" using IH first by simp
  next
    fix p
    from IH have "lookup fs' p = lookup fs1 p \<or>
        (p \<in> baselinePath_of t ` set ss \<and> lookup fs1 p = None \<and>
         (\<exists>c. lookup fs' p = Some (File c (clock fs1))))" by blast
    moreover from first have "lookup fs1 p = lookup fs p \<or>
        (p = baselinePath_of t s \<and> lookup fs p = None \<and>
         (\<exists>c. lookup fs1 p = Some (File c (clock fs))))"
      by blast
    moreover from first have "clock fs1 = clock fs" by simp
    ultimately show "lookup fs' p = lookup fs p \<or>
        (p \<in> baselinePath_of t ` set (s # ss) \<and> lookup fs p = None \<and>
         (\<exists>c. lookup fs' p = Some (File c (clock fs))))"
      by auto
  qed
qed

lemma screenshots_loop_preserves:
  assumes "screenshots_loop fs_promises pm t runId (res, fs) shots = (res', fs')"
    and "lookup fs p = Some n"
  shows "lookup fs' p = Some n"
  using screenshots_loop_frame [OF assms(1)] assms(2) by (metis option.distinct(1))

lemma screenshots_loop_untouched:
  assumes "screenshots_loop fs_promises pm t runId (res, fs) shots = (res', fs')"
    and "p \<notin> baselinePath_of t ` set shots"
  shows "lookup fs' p = lookup fs p"
  using screenshots_loop_frame [OF assms(1)] assms(2) by blast

text \<open>The outcome at position \<open>i\<close> is the one pushed by the pass over capture \<open>i\<close>.\<close>

lemma screenshots_loop_prefix:
  "screenshots_loop F pm t runId (res, fs) shots = (res', fs') \<Longrightarrow>
   \<exists>cs. comparisons res' = comparisons res @ cs \<and> length cs = length shots"
  using screenshots_loop_counts by blast

lemma nth_outcome:
  assumes i: "i < length shots"
    and before: "screenshots_loop F pm t runId (initial_results, fs) (take i shots) = (res_i, fs_i)"
    and step: "loop_body F pm t runId (res_i, fs_i) (shots ! i) = (res1, fs1)"
    and run: "screenshots_loop F pm t runId (initial_results, fs) shots = (r, fs')"
  shows "comparisons r ! i = last (comparisons res1)"
    and "screenshots_loop F pm t runId (res1, fs1) (drop (Suc i) shots) = (r, fs')"
proof -
  have split: "shots = take i shots @ shots ! i # drop (Suc i) shots"
    using i by (simp add: id_take_nth_drop)
  have "screenshots_loop F pm t runId (initial_results, fs) shots =
        screenshots_loop F pm t runId (res1, fs1) (drop (Suc i) shots)"
    by (subst split) (simp add: screenshots_loop_append screenshots_loop_Cons before step)
  with run show rest: "screenshots_loop F pm t runId (res1, fs1) (drop (Suc i) shots) = (r, fs')"
    by simp
  from screenshots_loop_prefix [OF before] i have len_i: "length (comparisons res_i) = i"
    by (auto simp: initial_results_def)
  from loop_body_counts [OF step] obtain c where c: "comparisons res1 = comparisons res_i @ [c]"
    by blast
  from screenshots_loop_prefix [OF rest] obtain cs where "comparisons r = comparisons res1 @ cs"
    by blast
  with c len_i show "comparisons r ! i = last (comparisons res1)"
    by (simp add: nth_append)
qed

lemma state_before_Suc:
  assumes i: "i < length shots"
    and before: "screenshots_loop F pm t runId (initial_results, fs) (take i shots) = (res_i, fs_i)"
    and step: "loop_body F pm t runId (res_i, fs_i) (shots ! i) = (res1, fs1)"
  shows "state_before F pm t fs shots runId i = fs_i"
    and "state_before F pm t fs shots runId (Suc i) = fs1"
proof -
  show "state_before F pm t fs shots runId i = fs_i"
    by (simp add: state_before_def before)
  have "take (Suc i) shots = take i shots @ [shots ! i]"
    using i by (simp add: take_Suc_conv_app_nth)
  then show "state_before F pm t fs shots runId (Suc i) = fs1"
    by (simp add: state_before_def screenshots_loop_append before screenshots_loop_Cons
        screenshots_loop_Nil step)
qed

text \<open>A comparison that throws at capture \<open>i\<close> gives the error outcome and changes nothing.\<close>

lemma failing_pass:
  assumes i: "i < length shots"
    and ex: "fileExists (state_before F pm t fs shots runId i) (baselinePath_of t (shots ! i)) = Inr True"
    and fail: "compareImages F pm (state_before F pm t fs shots runId i) (shots ! i)
                 (baselinePath_of t (shots ! i)) (diffPath_of t runId (shots ! i)) = Inl e"
    and run: "screenshots_loop F pm t runId (initial_results, fs) shots = (r, fs')"
  shows "comparisons r ! i = error_outcome t (shots ! i) e"
    and "state_before F pm t fs shots runId (Suc i) = state_before F pm t fs shots runId i"
    and "length (comparisons r) = length shots"
proof -
  obtain res_i fs_i where before:
    "screenshots_loop F pm t runId (initial_results, fs) (take i shots) = (res_i, fs_i)"
    by (cases "screenshots_loop F pm t runId (initial_results, fs) (take i shots)")
  then have fs_i: "state_before F pm t fs shots runId i = fs_i"
    by (simp add: state_before_def)
  have step: "loop_body F pm t runId (res_i, fs_i) (shots ! i) =
     (res_i\<lparr>total := total res_i + 1, failed := failed res_i + 1,
          comparisons := comparisons res_i @ [error_outcome t (shots ! i) e]\<rparr>, fs_i)"
    using ex fail unfolding fs_i by (rule loop_body_error)
  from nth_outcome(1) [OF i before step run]
  show "comparisons r ! i = error_outcome t (shots ! i) e" by simp
  from state_before_Suc [OF i before step]
  show "state_before F pm t fs shots runId (Suc i) = state_before F pm t fs shots runId i"
    by simp
  from screenshots_loop_prefix [OF run] show "length (comparisons r) = length shots"
    by (auto simp: initial_results_def)
qed

section \<open>The loop of \<open>cleanupOldDiffs\<close>\<close>





lemma is_old_File: "lookup fs p = Some (File c m) \<Longrightarrow>
    is_old now maxAge (lookup fs p) = js_greater (real_of_int (now - m)) maxAge"
  by (simp add: is_old_def)










lemma fs_readdir_Dir: "lookup fs dir = Some (Dir d) \<Longrightarrow> \<exists>files. fs_readdir fs dir = Inr files"
  by (simp add: fs_readdir_def)

lemma cleanup_stops_at_failure:
  "is_old (clock blocked_fs) default_maxAge
     (lookup blocked_fs [''w'', ''reports'', ''run1'', ''diffs'', ''p0-home.png'']) \<and>
   cleanupOldDiffs example_tester blocked_fs default_maxAge = Inr blocked_fs"
  by code_simp

section \<open>Formatting\<close>





lemma toFixed2_quarter: "toFixed2_real (25 / 4) = ''6.25''"
  by (simp add: toFixed2_real_def show_nat.simps digit_char_def)

lemma toFixed2_small: "toFixed2_real (1 / 1000) = ''0.00''"
  by (simp add: toFixed2_real_def show_nat.simps digit_char_def)

section \<open>The example data\<close>

lemma example_paths:
  "baselinePath_of example_tester home_capture = [''w'', ''baselines'', ''home.png'']"
  "baselinePath_of example_tester login_capture = [''w'', ''baselines'', ''login.png'']"
  "diffPath_of example_tester ''p1'' home_capture =
     [''w'', ''reports'', ''run1'', ''diffs'', ''p1-home.png'']"
  by (simp_all add: baselinePath_of_def diffPath_of_def example_tester_def
      VisualRegressionTester_def path_join_def push_segment_def basename_def home_capture_def
      login_capture_def)

lemma changed_run:
  "compareScreenshots streaming_module count_pixels example_tester changed_fs [home_capture] ''p1'' =
     Inr (\<lparr>total = 1, passed = 0, failed = 1, new = 0,
           comparisons =
             [\<lparr>filename = ''home.png'', status = ''failed'',
               baseline = [''w'', ''baselines'', ''home.png''], current = home_capture,
               diff = Some [''w'', ''reports'', ''run1'', ''diffs'', ''p1-home.png''],
               diffPercentage = Number 50, error = None\<rparr>]\<rparr>,
          changed_fs\<lparr>nodes := nodes changed_fs @
            [([''w'', ''reports'', ''run1'', ''diffs'', ''p1-home.png''],
              File (Png changed_image) 6000)]\<rparr>)"
  by code_simp


section \<open>Claims\<close>

text \<open>
  C1. Every run of \<open>compareScreenshots\<close> returns a summary with
  \<open>total = passed + failed + new\<close>. \<open>total\<close> is the number of captures, each capture has one
  outcome, and the counters count the outcomes by status: \<open>passed\<close> those with status
  passed, \<open>new\<close> those with status new, and \<open>failed\<close> those with status failed together with
  those with status error. This holds whatever module is bound to \<open>fs\<close> and whatever
  pixelmatch returns.
\<close>

theorem counter_invariant:
  "\<exists>r fs'. compareScreenshots F pm t fs shots runId = Inr (r, fs') \<and>
      total r = passed r + failed r + new r \<and>
      total r = length shots \<and> length (comparisons r) = length shots \<and>
      passed r = count_status (\<lambda>st. st = ''passed'') (comparisons r) \<and>
      failed r = count_status (\<lambda>st. st = ''failed'' \<or> st = ''error'') (comparisons r) \<and>
      new r = count_status (\<lambda>st. st = ''new'') (comparisons r)"
proof -
  obtain r fs' where run: "screenshots_loop F pm t runId (initial_results, fs) shots = (r, fs')"
    by (cases "screenshots_loop F pm t runId (initial_results, fs) shots")
  from screenshots_loop_counts [OF run] have counts:
    "length (comparisons r) = length shots" "total r = length shots"
    "passed r = count_status (\<lambda>st. st = ''passed'') (comparisons r)"
    "failed r = count_status (\<lambda>st. st = ''failed'' \<or> st = ''error'') (comparisons r)"
    "new r = count_status (\<lambda>st. st = ''new'') (comparisons r)"
    by (auto simp: initial_results_def)
  from screenshots_loop_sum [OF run] have "passed r + failed r + new r = length shots"
    by (simp add: initial_results_def)
  with counts run show ?thesis
    by (simp add: compareScreenshots_def)
qed


text \<open>
  C2. Let capture number \<open>i\<close> be a regular file whose baseline path holds nothing when the
  run starts, let the directory above that path exist, and let no earlier capture of the run
  have the same baseline path. Then \<open>compareScreenshots\<close> copies the capture to the baseline
  path, the outcome of the capture is the \<open>new\<close> outcome (status new, diffPercentage 0,
  \<open>diff\<close> null), and after the run \<open>fileExists\<close> on the baseline path returns true.
\<close>

theorem first_sight_adoption:
  assumes i: "i < length shots"
    and absent: "lookup fs (baselinePath_of t (shots ! i)) = None"
    and cap: "lookup fs (shots ! i) = Some (File c m)"
    and store: "lookup fs (parent (baselinePath_of t (shots ! i))) = Some (Dir d)"
    and first: "\<forall>j<i. baselinePath_of t (shots ! j) \<noteq> baselinePath_of t (shots ! i)"
  shows "\<exists>r fs'. compareScreenshots fs_promises pm t fs shots runId = Inr (r, fs') \<and>
           comparisons r ! i = new_outcome t (shots ! i) \<and>
           status (comparisons r ! i) = ''new'' \<and>
           diffPercentage (comparisons r ! i) = Number 0 \<and>
           diff (comparisons r ! i) = None \<and>
           lookup fs' (baselinePath_of t (shots ! i)) = Some (File c (clock fs)) \<and>
           fileExists fs' (baselinePath_of t (shots ! i)) = Inr True"
proof -
  let ?bp = "baselinePath_of t (shots ! i)"
  obtain res_i fs_i where before:
    "screenshots_loop fs_promises pm t runId (initial_results, fs) (take i shots) = (res_i, fs_i)"
    by (cases "screenshots_loop fs_promises pm t runId (initial_results, fs) (take i shots)")
  obtain r fs' where run:
    "screenshots_loop fs_promises pm t runId (initial_results, fs) shots = (r, fs')"
    by (cases "screenshots_loop fs_promises pm t runId (initial_results, fs) shots")
  have "?bp \<notin> baselinePath_of t ` set (take i shots)"
  proof
    assume "?bp \<in> baselinePath_of t ` set (take i shots)"
    then obtain j where "j < length (take i shots)" "baselinePath_of t (take i shots ! j) = ?bp"
      by (auto simp: in_set_conv_nth)
    with first i show False by simp
  qed
  from screenshots_loop_untouched [OF before this] absent
  have absent_i: "lookup fs_i ?bp = None" by simp
  have cap_i: "lookup fs_i (shots ! i) = Some (File c m)"
    by (rule screenshots_loop_preserves [OF before cap])
  have store_i: "lookup fs_i (parent ?bp) = Some (Dir d)"
    by (rule screenshots_loop_preserves [OF before store])
  have clock_i: "clock fs_i = clock fs"
    using screenshots_loop_frame [OF before] by simp
  let ?fs1 = "fs_i\<lparr>nodes := AList.update ?bp (File c (clock fs_i)) (nodes fs_i)\<rparr>"
  let ?res1 = "res_i\<lparr>total := total res_i + 1, new := new res_i + 1,
          comparisons := comparisons res_i @ [new_outcome t (shots ! i)]\<rparr>"
  have step: "loop_body fs_promises pm t runId (res_i, fs_i) (shots ! i) = (?res1, ?fs1)"
    by (rule loop_body_adopts [OF absent_i cap_i store_i])
  from nth_outcome(1) [OF i before step run]
  have nth: "comparisons r ! i = new_outcome t (shots ! i)" by simp
  have rest: "screenshots_loop fs_promises pm t runId (?res1, ?fs1) (drop (Suc i) shots) = (r, fs')"
    by (rule nth_outcome(2) [OF i before step run])
  have "lookup ?fs1 ?bp = Some (File c (clock fs))"
    by (simp add: lookup_update clock_i)
  from screenshots_loop_preserves [OF rest this]
  have final: "lookup fs' ?bp = Some (File c (clock fs))" .
  with nth run show ?thesis
    by (simp add: compareScreenshots_def new_outcome_def fileExists_eq)
qed

theorem first_sight_adoption_witness:
  "1 < length [home_capture, login_capture] \<and>
   lookup example_fs (baselinePath_of example_tester ([home_capture, login_capture] ! 1)) = None \<and>
   lookup example_fs ([home_capture, login_capture] ! 1) = Some (File (Png wide_image) 5000) \<and>
   lookup example_fs (parent (baselinePath_of example_tester ([home_capture, login_capture] ! 1)))
     = Some (Dir 1000) \<and>
   (\<exists>r fs'. compareScreenshots fs_promises count_pixels example_tester example_fs
        [home_capture, login_capture] ''p1'' = Inr (r, fs') \<and>
      status (comparisons r ! 1) = ''new'' \<and>
      diffPercentage (comparisons r ! 1) = Number 0 \<and>
      diff (comparisons r ! 1) = None \<and>
      lookup fs' [''w'', ''baselines'', ''login.png''] = Some (File (Png wide_image) 6000) \<and>
      fileExists fs' [''w'', ''baselines'', ''login.png''] = Inr True)"
proof -
  have h1: "1 < length [home_capture, login_capture]" by simp
  have h2: "lookup example_fs (baselinePath_of example_tester ([home_capture, login_capture] ! 1))
      = None"
    by code_simp
  have h3: "lookup example_fs ([home_capture, login_capture] ! 1)
      = Some (File (Png wide_image) 5000)"
    by code_simp
  have h4: "lookup example_fs
      (parent (baselinePath_of example_tester ([home_capture, login_capture] ! 1)))
      = Some (Dir 1000)"
    by code_simp
  have h5: "\<forall>j<1. baselinePath_of example_tester ([home_capture, login_capture] ! j) \<noteq>
      baselinePath_of example_tester ([home_capture, login_capture] ! 1)"
    by (simp add: example_paths)
  have clock: "clock example_fs = 6000" by (simp add: example_fs_def)
  from first_sight_adoption [OF h1 h2 h3 h4 h5, of count_pixels "''p1''"] h1 h2 h3 h4 clock
  show ?thesis by (auto simp: example_paths)
qed

text \<open>
  C3, at a failing input. The baseline of \<open>home.png\<close> and the capture are the same image,
  two pixels wide. The comparison is never computed: \<open>loadPNG\<close> throws, and the outcome is
  an error with diffPercentage 100, counted as failed, where the claim has passed with
  diffPercentage 0.
\<close>

theorem identical_capture_is_error:
  "compareScreenshots fs_promises count_pixels example_tester identical_fs [home_capture] ''p1'' =
     Inr (\<lparr>total = 1, passed = 0, failed = 1, new = 0,
           comparisons =
             [\<lparr>filename = ''home.png'', status = ''error'',
               baseline = [''w'', ''baselines'', ''home.png''], current = home_capture,
               diff = None, diffPercentage = Number 100,
               error = Some ''fs.createReadStream is not a function''\<rparr>]\<rparr>,
          identical_fs)"
  by code_simp

text \<open>
  C4. Let capture number \<open>i\<close> and its baseline both be PNG files when the run starts, of
  different width or height. Then the outcome of the capture has status error and
  diffPercentage 100, and the run goes on: it returns, with one outcome for every capture.
\<close>

theorem dimension_mismatch_is_error:
  assumes i: "i < length shots"
    and base: "lookup fs (baselinePath_of t (shots ! i)) = Some (File (Png b) mb)"
    and cap: "lookup fs (shots ! i) = Some (File (Png c) mc)"
    and dims: "width b \<noteq> width c \<or> height b \<noteq> height c"
  shows "\<exists>r fs'. compareScreenshots fs_promises pm t fs shots runId = Inr (r, fs') \<and>
           status (comparisons r ! i) = ''error'' \<and>
           diffPercentage (comparisons r ! i) = Number 100 \<and>
           length (comparisons r) = length shots"
proof -
  obtain res_i fs_i where before:
    "screenshots_loop fs_promises pm t runId (initial_results, fs) (take i shots) = (res_i, fs_i)"
    by (cases "screenshots_loop fs_promises pm t runId (initial_results, fs) (take i shots)")
  obtain r fs' where run:
    "screenshots_loop fs_promises pm t runId (initial_results, fs) shots = (r, fs')"
    by (cases "screenshots_loop fs_promises pm t runId (initial_results, fs) shots")
  from screenshots_loop_preserves [OF before base]
  have "fileExists fs_i (baselinePath_of t (shots ! i)) = Inr True"
    by (simp add: fileExists_eq)
  then have ex: "fileExists (state_before fs_promises pm t fs shots runId i)
      (baselinePath_of t (shots ! i)) = Inr True"
    by (simp add: state_before_def before)
  from failing_pass(1,3) [OF i ex compareImages_fs_promises run] run
  show ?thesis
    by (simp add: compareScreenshots_def error_outcome_def)
qed

theorem dimension_mismatch_is_error_witness:
  "0 < length [home_capture, login_capture] \<and>
   lookup example_fs (baselinePath_of example_tester ([home_capture, login_capture] ! 0))
     = Some (File (Png tall_image) 2000) \<and>
   lookup example_fs ([home_capture, login_capture] ! 0) = Some (File (Png wide_image) 5000) \<and>
   width tall_image \<noteq> width wide_image \<and>
   (\<exists>r fs'. compareScreenshots fs_promises count_pixels example_tester example_fs
        [home_capture, login_capture] ''p1'' = Inr (r, fs') \<and>
      status (comparisons r ! 0) = ''error'' \<and>
      diffPercentage (comparisons r ! 0) = Number 100 \<and>
      length (comparisons r) = 2)"
proof -
  have h1: "0 < length [home_capture, login_capture]" by simp
  have h2: "lookup example_fs (baselinePath_of example_tester ([home_capture, login_capture] ! 0))
      = Some (File (Png tall_image) 2000)"
    by code_simp
  have h3: "lookup example_fs ([home_capture, login_capture] ! 0)
      = Some (File (Png wide_image) 5000)"
    by code_simp
  have h4: "width tall_image \<noteq> width wide_image"
    by (simp add: tall_image_def wide_image_def)
  then have h5: "width tall_image \<noteq> width wide_image \<or> height tall_image \<noteq> height wide_image"
    by simp
  from dimension_mismatch_is_error [OF h1 h2 h3 h5, of count_pixels "''p1''"] h1 h2 h3 h4
  show ?thesis by auto
qed

text \<open>
  C5. Let the baseline of capture number \<open>i\<close> exist when the loop reaches it, and let the
  comparison throw an exception \<open>e\<close>, whatever it is (a file that does not decode, a path
  that cannot be read, a missing function). Then \<open>compareScreenshots\<close> still returns, with
  one outcome for every capture; the outcome of capture \<open>i\<close> is the error outcome, with
  status error, diffPercentage 100 and the message of \<open>e\<close>; and the loop goes on to capture
  \<open>i + 1\<close> with the file system as it was. This holds for every module bound to \<open>fs\<close>.
\<close>

theorem image_failure_is_local:
  assumes i: "i < length shots"
    and ex: "fileExists (state_before F pm t fs shots runId i) (baselinePath_of t (shots ! i))
               = Inr True"
    and fail: "compareImages F pm (state_before F pm t fs shots runId i) (shots ! i)
                 (baselinePath_of t (shots ! i)) (diffPath_of t runId (shots ! i)) = Inl e"
  shows "\<exists>r fs'. compareScreenshots F pm t fs shots runId = Inr (r, fs') \<and>
           length (comparisons r) = length shots \<and>
           comparisons r ! i = error_outcome t (shots ! i) e \<and>
           status (comparisons r ! i) = ''error'' \<and>
           diffPercentage (comparisons r ! i) = Number 100 \<and>
           error (comparisons r ! i) = Some (message e) \<and>
           state_before F pm t fs shots runId (Suc i) = state_before F pm t fs shots runId i"
proof -
  obtain r fs' where run: "screenshots_loop F pm t runId (initial_results, fs) shots = (r, fs')"
    by (cases "screenshots_loop F pm t runId (initial_results, fs) shots")
  from failing_pass [OF i ex fail run] run show ?thesis
    by (simp add: compareScreenshots_def error_outcome_def)
qed

theorem image_failure_is_local_witness:
  "1 < length [login_capture, home_capture] \<and>
   fileExists (state_before fs_promises count_pixels example_tester example_fs
       [login_capture, home_capture] ''p1'' 1)
     (baselinePath_of example_tester ([login_capture, home_capture] ! 1)) = Inr True \<and>
   compareImages fs_promises count_pixels
     (state_before fs_promises count_pixels example_tester example_fs
       [login_capture, home_capture] ''p1'' 1)
     ([login_capture, home_capture] ! 1)
     (baselinePath_of example_tester ([login_capture, home_capture] ! 1))
     (diffPath_of example_tester ''p1'' ([login_capture, home_capture] ! 1))
     = Inl (TypeError ''fs.createReadStream is not a function'') \<and>
   (\<exists>r fs'. compareScreenshots fs_promises count_pixels example_tester example_fs
        [login_capture, home_capture] ''p1'' = Inr (r, fs') \<and>
      length (comparisons r) = 2 \<and>
      status (comparisons r ! 1) = ''error'' \<and>
      diffPercentage (comparisons r ! 1) = Number 100 \<and>
      error (comparisons r ! 1) = Some ''fs.createReadStream is not a function'')"
proof -
  have h1: "1 < length [login_capture, home_capture]" by simp
  have h2: "fileExists (state_before fs_promises count_pixels example_tester example_fs
       [login_capture, home_capture] ''p1'' 1)
     (baselinePath_of example_tester ([login_capture, home_capture] ! 1)) = Inr True"
    by code_simp
  have h3: "compareImages fs_promises count_pixels
     (state_before fs_promises count_pixels example_tester example_fs
       [login_capture, home_capture] ''p1'' 1)
     ([login_capture, home_capture] ! 1)
     (baselinePath_of example_tester ([login_capture, home_capture] ! 1))
     (diffPath_of example_tester ''p1'' ([login_capture, home_capture] ! 1))
     = Inl (TypeError ''fs.createReadStream is not a function'')"
    by (rule compareImages_fs_promises)
  from image_failure_is_local [OF h1 h2 h3] h1 h2 h3
  show ?thesis by auto
qed


text \<open>
  Against C6 as stated. In the example the comparison of \<open>home.png\<close> with its baseline
  throws inside \<open>compareImages\<close>. The run records the error outcome with \<open>diff\<close> null and
  leaves the file system as it was: there is no diff artifact at
  \<open>/w/reports/run1/diffs/p1-home.png\<close>.
\<close>

theorem comparison_error_leaves_no_artifact_counterexample:
  "compareScreenshots fs_promises count_pixels example_tester example_fs [home_capture] ''p1'' =
     Inr (\<lparr>total = 1, passed = 0, failed = 1, new = 0,
           comparisons =
             [\<lparr>filename = ''home.png'', status = ''error'',
               baseline = [''w'', ''baselines'', ''home.png''], current = home_capture,
               diff = None, diffPercentage = Number 100,
               error = Some ''fs.createReadStream is not a function''\<rparr>]\<rparr>,
          example_fs) \<and>
   diffPath_of example_tester ''p1'' home_capture =
     [''w'', ''reports'', ''run1'', ''diffs'', ''p1-home.png''] \<and>
   lookup example_fs [''w'', ''reports'', ''run1'', ''diffs'', ''p1-home.png''] = None"
  by code_simp

text \<open>
  C6, amended. For every capture whose outcome is classified failed, the \<open>diff\<close> field of
  the outcome is the path \<open>path.join(diffDir, runId-filename)\<close>, that is
  \<open><reportsDir>/diffs/<runId>-<filename>\<close>, and the pass over the capture has saved the
  diff image there with \<open>savePNG\<close>. For every other outcome (passed, new or error, and a
  comparison that throws is classified error) the \<open>diff\<close> field is null and the pass writes
  no diff artifact: it leaves the file system as it was, except that for a new outcome it
  copies the capture to the baseline path. This holds for every module bound to \<open>fs\<close>.
\<close>

theorem diff_artifact_iff_failed:
  assumes i: "i < length shots"
  shows "\<exists>r fs'. compareScreenshots F pm t fs shots runId = Inr (r, fs') \<and>
           (status (comparisons r ! i) = ''failed'' \<longrightarrow>
              diff (comparisons r ! i) = Some (diffPath_of t runId (shots ! i)) \<and>
              (\<exists>img. savePNG F (state_before F pm t fs shots runId i) img
                        (diffPath_of t runId (shots ! i))
                      = Inr (state_before F pm t fs shots runId (Suc i)))) \<and>
           (status (comparisons r ! i) \<noteq> ''failed'' \<longrightarrow>
              diff (comparisons r ! i) = None \<and>
              (state_before F pm t fs shots runId (Suc i) = state_before F pm t fs shots runId i \<or>
               (status (comparisons r ! i) = ''new'' \<and>
                (\<exists>c. state_before F pm t fs shots runId (Suc i) =
                   (state_before F pm t fs shots runId i)
                     \<lparr>nodes := AList.update (baselinePath_of t (shots ! i))
                        (File c (clock (state_before F pm t fs shots runId i)))
                        (nodes (state_before F pm t fs shots runId i))\<rparr>)))) \<and>
           diffPath_of t runId (shots ! i) =
             path_join (diffDir t) (runId @ ''-'' @ basename (shots ! i))"
proof -
  obtain res_i fs_i where before:
    "screenshots_loop F pm t runId (initial_results, fs) (take i shots) = (res_i, fs_i)"
    by (cases "screenshots_loop F pm t runId (initial_results, fs) (take i shots)")
  obtain res1 fs1 where step: "loop_body F pm t runId (res_i, fs_i) (shots ! i) = (res1, fs1)"
    by (cases "loop_body F pm t runId (res_i, fs_i) (shots ! i)")
  obtain r fs' where run: "screenshots_loop F pm t runId (initial_results, fs) shots = (r, fs')"
    by (cases "screenshots_loop F pm t runId (initial_results, fs) shots")
  note states = state_before_Suc [OF i before step]
  have nth: "comparisons r ! i = last (comparisons res1)"
    by (rule nth_outcome(1) [OF i before step run])
  let ?c = "last (comparisons res1)"
  let ?dp = "diffPath_of t runId (shots ! i)"
  from loop_body_cases [OF step]
  have "(status ?c = ''failed'' \<longrightarrow>
           diff ?c = Some ?dp \<and> (\<exists>img. savePNG F fs_i img ?dp = Inr fs1)) \<and>
        (status ?c \<noteq> ''failed'' \<longrightarrow>
          diff ?c = None \<and>
          (fs1 = fs_i \<or> (status ?c = ''new'' \<and>
             (\<exists>c. fs1 = fs_i\<lparr>nodes := AList.update (baselinePath_of t (shots ! i))
                 (File c (clock fs_i)) (nodes fs_i)\<rparr>))))"
  proof (elim disjE exE conjE)
    fix c m
    assume "?c = new_outcome t (shots ! i)"
      "fs1 = fs_i\<lparr>nodes := AList.update (baselinePath_of t (shots ! i)) (File c (clock fs_i))
          (nodes fs_i)\<rparr>"
    then show ?thesis by (auto simp: new_outcome_def)
  next
    fix e
    assume "?c = error_outcome t (shots ! i) e" "fs1 = fs_i"
    then show ?thesis by (simp add: error_outcome_def)
  next
    fix cmp
    assume c: "?c = compared_outcome t runId (shots ! i) cmp"
      and cmp: "compareImages F pm fs_i (shots ! i) (baselinePath_of t (shots ! i)) ?dp
                  = Inr (cmp, fs1)"
    show ?thesis
    proof (cases "cmp_passed cmp")
      case True
      with compareImages_passed [OF cmp] c show ?thesis by (simp add: compared_outcome_def)
    next
      case False
      with compareImages_failed [OF cmp] c show ?thesis by (simp add: compared_outcome_def)
    qed
  qed
  with nth states run show ?thesis
    by (simp add: compareScreenshots_def diffPath_of_def)
qed

theorem diff_artifact_iff_failed_witness:
  "0 < length [home_capture] \<and>
   (\<exists>r fs'. compareScreenshots fs_promises count_pixels example_tester example_fs
        [home_capture] ''p1'' = Inr (r, fs') \<and>
      status (comparisons r ! 0) = ''error'' \<and>
      diff (comparisons r ! 0) = None \<and>
      state_before fs_promises count_pixels example_tester example_fs [home_capture] ''p1'' (Suc 0) =
      state_before fs_promises count_pixels example_tester example_fs [home_capture] ''p1'' 0) \<and>
   (\<exists>r fs'. compareScreenshots streaming_module count_pixels example_tester changed_fs
        [home_capture] ''p1'' = Inr (r, fs') \<and>
      status (comparisons r ! 0) = ''failed'' \<and>
      diff (comparisons r ! 0) = Some [''w'', ''reports'', ''run1'', ''diffs'', ''p1-home.png''] \<and>
      (\<exists>img. savePNG streaming_module
          (state_before streaming_module count_pixels example_tester changed_fs [home_capture] ''p1'' 0)
          img [''w'', ''reports'', ''run1'', ''diffs'', ''p1-home.png'']
        = Inr (state_before streaming_module count_pixels example_tester changed_fs
                 [home_capture] ''p1'' (Suc 0))) \<and>
      lookup (state_before streaming_module count_pixels example_tester changed_fs
                 [home_capture] ''p1'' (Suc 0))
        [''w'', ''reports'', ''run1'', ''diffs'', ''p1-home.png'']
        = Some (File (Png changed_image) 6000))"
proof -
  have h1: "0 < length [home_capture]" by simp
  have run: "compareScreenshots fs_promises count_pixels example_tester example_fs
      [home_capture] ''p1'' =
     Inr (\<lparr>total = 1, passed = 0, failed = 1, new = 0,
           comparisons =
             [\<lparr>filename = ''home.png'', status = ''error'',
               baseline = [''w'', ''baselines'', ''home.png''], current = home_capture,
               diff = None, diffPercentage = Number 100,
               error = Some ''fs.createReadStream is not a function''\<rparr>]\<rparr>,
          example_fs)"
    by code_simp
  from diff_artifact_iff_failed [OF h1, of fs_promises count_pixels example_tester example_fs "''p1''"]
    run
  have part1: "\<exists>r fs'. compareScreenshots fs_promises count_pixels example_tester example_fs
        [home_capture] ''p1'' = Inr (r, fs') \<and>
      status (comparisons r ! 0) = ''error'' \<and>
      diff (comparisons r ! 0) = None \<and>
      state_before fs_promises count_pixels example_tester example_fs [home_capture] ''p1'' (Suc 0) =
      state_before fs_promises count_pixels example_tester example_fs [home_capture] ''p1'' 0"
    by auto
  have written: "lookup (state_before streaming_module count_pixels example_tester changed_fs
                 [home_capture] ''p1'' (Suc 0))
        [''w'', ''reports'', ''run1'', ''diffs'', ''p1-home.png'']
        = Some (File (Png changed_image) 6000)"
    by code_simp
  from diff_artifact_iff_failed [OF h1, of streaming_module count_pixels example_tester changed_fs
      "''p1''"] changed_run written
  have part2: "\<exists>r fs'. compareScreenshots streaming_module count_pixels example_tester changed_fs
        [home_capture] ''p1'' = Inr (r, fs') \<and>
      status (comparisons r ! 0) = ''failed'' \<and>
      diff (comparisons r ! 0) = Some [''w'', ''reports'', ''run1'', ''diffs'', ''p1-home.png''] \<and>
      (\<exists>img. savePNG streaming_module
          (state_before streaming_module count_pixels example_tester changed_fs [home_capture] ''p1'' 0)
          img [''w'', ''reports'', ''run1'', ''diffs'', ''p1-home.png'']
        = Inr (state_before streaming_module count_pixels example_tester changed_fs
                 [home_capture] ''p1'' (Suc 0))) \<and>
      lookup (state_before streaming_module count_pixels example_tester changed_fs
                 [home_capture] ''p1'' (Suc 0))
        [''w'', ''reports'', ''run1'', ''diffs'', ''p1-home.png'']
        = Some (File (Png changed_image) 6000)"
    by (auto simp: example_paths)
  from h1 part1 part2 show ?thesis by blast
qed


text \<open>
  Against C8 as stated. In the example \<open>fs.access\<close> on the baseline path fails with
  \<open>EACCES\<close>, an I/O error other than "not found"; \<open>fileExists\<close> does not throw and
  returns false.
\<close>

theorem fileExists_swallows_counterexample:
  "fs_access locked_fs [''w'', ''baselines'', ''home.png''] = Inl (SystemError EACCES) \<and>
   fileExists locked_fs [''w'', ''baselines'', ''home.png''] = Inr False"
  by code_simp

text \<open>
  C8, amended. \<open>fileExists\<close> never throws, for a missing file or for any other failure:
  it returns true exactly when \<open>fs.access\<close> succeeds and false for every exception that
  \<open>fs.access\<close> throws; a missing file is the case in which that exception is \<open>ENOENT\<close>.
\<close>

theorem fileExists_never_throws:
  "(\<exists>b. fileExists fs p = Inr b) \<and>
   (fileExists fs p = Inr True) = (fs_access fs p = Inr ()) \<and>
   (fileExists fs p = Inr False) = (\<exists>e. fs_access fs p = Inl e) \<and>
   (lookup fs p = None) = (fs_access fs p = Inl (SystemError ENOENT))"
  by (auto simp: fileExists_def fs_access_def split: sum.splits option.splits node.splits)

text \<open>
  C9. If the baseline path of a capture holds a file when the run starts, it holds the same
  file, with the same modification time, when \<open>compareScreenshots\<close> has returned.
\<close>

theorem existing_baseline_unchanged:
  assumes "s \<in> set shots"
    and "lookup fs (baselinePath_of t s) = Some (File c m)"
  shows "\<exists>r fs'. compareScreenshots fs_promises pm t fs shots runId = Inr (r, fs') \<and>
           lookup fs' (baselinePath_of t s) = Some (File c m)"
proof -
  obtain r fs' where run:
    "screenshots_loop fs_promises pm t runId (initial_results, fs) shots = (r, fs')"
    by (cases "screenshots_loop fs_promises pm t runId (initial_results, fs) shots")
  from screenshots_loop_preserves [OF run assms(2)] run show ?thesis
    by (simp add: compareScreenshots_def)
qed

theorem existing_baseline_unchanged_witness:
  "home_capture \<in> set [home_capture, login_capture] \<and>
   lookup example_fs (baselinePath_of example_tester home_capture)
     = Some (File (Png tall_image) 2000) \<and>
   (\<exists>r fs'. compareScreenshots fs_promises count_pixels example_tester example_fs
        [home_capture, login_capture] ''p1'' = Inr (r, fs') \<and>
      lookup fs' [''w'', ''baselines'', ''home.png''] = Some (File (Png tall_image) 2000))"
proof -
  have h1: "home_capture \<in> set [home_capture, login_capture]" by simp
  have h2: "lookup example_fs (baselinePath_of example_tester home_capture)
      = Some (File (Png tall_image) 2000)"
    by code_simp
  from existing_baseline_unchanged [OF h1 h2, of count_pixels "''p1''"] h1 h2
  show ?thesis by (auto simp: example_paths)
qed







end
